theory Spec2Isabelle
  imports Complex_Main "HOL-Library.Sublist"
begin

section \<open>Data model\<close>

text \<open>
  The Go package \<open>perplexity\<close>: request and response structs, the custom JSON marshaller
  of the request, \<open>ChatCompletion\<close> and \<open>handleStreamingResponse\<close>.

  A Go \<open>error\<close> value is either a plain message (\<open>errors.New\<close>, \<open>fmt.Errorf\<close> with
  \<open>%s\<close>, and the errors of the standard library) or a message around a wrapped error
  (\<open>fmt.Errorf\<close> with \<open>%w\<close>).
\<close>

datatype error = errorString string | wrapError string error

fun Error_msg :: "error \<Rightarrow> string" where
  "Error_msg (errorString s) = s"
| "Error_msg (wrapError m e) = m"

definition errors_New :: "string \<Rightarrow> error" where
  "errors_New s = errorString s"

text \<open>\<open>fmt.Errorf(prefix + "%s", s)\<close> and \<open>fmt.Errorf(prefix + "%w", err)\<close>.\<close>

definition Errorf_s :: "string \<Rightarrow> string \<Rightarrow> error" where
  "Errorf_s pre s = errorString (pre @ s)"

definition Errorf_w :: "string \<Rightarrow> error \<Rightarrow> error" where
  "Errorf_w pre e = wrapError (pre @ Error_msg e) e"

text \<open>
  A \<open>float64\<close> field is only compared with zero and marshalled; \<open>json.Marshal\<close> rejects
  the values that are not finite. A slice is \<open>nil\<close> or a sequence.
\<close>

datatype float64 = Finite real | NaN | Inf bool

type_synonym 'a slice = "'a list option"

fun elems :: "'a slice \<Rightarrow> 'a list" where
  "elems None = []"
| "elems (Some xs) = xs"

definition len :: "'a slice \<Rightarrow> nat" where
  "len s = length (elems s)"

definition MessageRoleSystem :: string where "MessageRoleSystem = ''system''"
definition MessageRoleUser :: string where "MessageRoleUser = ''user''"
definition MessageRoleAssistant :: string where "MessageRoleAssistant = ''assistant''"

record Message =
  Role :: string
  Content :: string

record Usage =
  PromptTokens :: int
  CompletionTokens :: int
  TotalTokens :: int

record Choice =
  Index :: int
  FinishReason :: string
  Message :: Message
  Delta :: Message

record ChatCompletionResponse =
  ID :: string
  Model :: string
  Object :: string
  Created :: int
  Choices :: "Choice slice"
  Usage :: Usage

text \<open>
  The request. \<open>Stream\<close> is the callback \<open>OnUpdateHandler\<close>, \<open>nil\<close> when absent; the
  function value is of an arbitrary type \<open>'h\<close>, and what calling it does is recorded in
  the world below.
\<close>

record 'h ChatCompletionRequest =
  Model :: string
  Messages :: "Message slice"
  MaxTokens :: int
  Temperature :: float64
  TopP :: float64
  ReturnCitations :: bool
  SearchDomainFilter :: "string slice"
  ReturnImages :: bool
  ReturnRelatedQuestions :: bool
  SearchRecencyFilter :: string
  TopK :: int
  Stream :: "'h option"
  PresencePenalty :: float64
  FrequencyPenalty :: float64

record apiError =
  Error :: string

section \<open>Serialization of the request\<close>

text \<open>
  The serialized form is a JSON value; an object keeps its members in the order
  \<open>json.Marshal\<close> writes them, the order of the struct's fields.
\<close>

datatype json =
    JNull
  | JBool bool
  | JInt int
  | JNumber real
  | JString string
  | JArray "json list"
  | JObject "(string \<times> json) list"

definition UnsupportedValueError :: error where
  "UnsupportedValueError = errorString ''json: unsupported value''"

fun marshal_float :: "float64 \<Rightarrow> error + json" where
  "marshal_float (Finite x) = Inr (JNumber x)"
| "marshal_float NaN = Inl UnsupportedValueError"
| "marshal_float (Inf b) = Inl UnsupportedValueError"

definition marshal_Message :: "Message \<Rightarrow> json" where
  "marshal_Message m =
     JObject [(''role'', JString (Role m)), (''content'', JString (Content m))]"

fun marshal_slice :: "('a \<Rightarrow> json) \<Rightarrow> 'a slice \<Rightarrow> json" where
  "marshal_slice f None = JNull"
| "marshal_slice f (Some xs) = JArray (map f xs)"

text \<open>
  One member of the object per struct field: \<open>always\<close> for a field with a plain tag,
  the \<open>omit_*\<close> functions for a field tagged \<open>omitempty\<close>, which is left out when it
  holds the zero value of its type.
\<close>

definition always :: "string \<Rightarrow> json \<Rightarrow> (string \<times> json) list" where
  "always k v = [(k, v)]"

definition omit_int :: "string \<Rightarrow> int \<Rightarrow> (string \<times> json) list" where
  "omit_int k n = (if n = 0 then [] else [(k, JInt n)])"

definition omit_string :: "string \<Rightarrow> string \<Rightarrow> (string \<times> json) list" where
  "omit_string k s = (if s = [] then [] else [(k, JString s)])"

definition omit_bool :: "string \<Rightarrow> bool \<Rightarrow> (string \<times> json) list" where
  "omit_bool k b = (if b then [(k, JBool True)] else [])"

definition omit_float :: "string \<Rightarrow> float64 \<Rightarrow> error + (string \<times> json) list" where
  "omit_float k x =
     (if x = Finite 0 then Inr []
      else case marshal_float x of Inl e \<Rightarrow> Inl e | Inr v \<Rightarrow> Inr [(k, v)])"

text \<open>
  \<open>MarshalJSON\<close> marshals the anonymous struct that embeds the request under the
  method-free type \<open>Alias\<close> and adds the field \<open>Stream bool `json:"stream,omitempty"`\<close>,
  set to \<open>req.Stream != nil\<close>. The request's own \<open>Stream\<close> field is tagged
  \<open>json:"-"\<close> and gives no member. The embedded fields come first, in their order.
\<close>

definition MarshalJSON :: "'h ChatCompletionRequest \<Rightarrow> error + json" where
  "MarshalJSON req =
     (case omit_float ''temperature'' (Temperature req) of
        Inl e \<Rightarrow> Inl e
      | Inr temperature \<Rightarrow>
     (case omit_float ''top_p'' (TopP req) of
        Inl e \<Rightarrow> Inl e
      | Inr top_p \<Rightarrow>
     (case omit_float ''presence_penalty'' (PresencePenalty req) of
        Inl e \<Rightarrow> Inl e
      | Inr presence_penalty \<Rightarrow>
     (case omit_float ''frequency_penalty'' (FrequencyPenalty req) of
        Inl e \<Rightarrow> Inl e
      | Inr frequency_penalty \<Rightarrow>
        Inr (JObject
          (always ''model'' (JString (ChatCompletionRequest.Model req))
           @ always ''messages'' (marshal_slice marshal_Message (Messages req))
           @ omit_int ''max_tokens'' (MaxTokens req)
           @ temperature
           @ top_p
           @ always ''return_citations'' (JBool (ReturnCitations req))
           @ always ''search_domain_filter'' (marshal_slice JString (SearchDomainFilter req))
           @ always ''return_images'' (JBool (ReturnImages req))
           @ always ''return_related_questions'' (JBool (ReturnRelatedQuestions req))
           @ omit_string ''search_recency_filter'' (SearchRecencyFilter req)
           @ omit_int ''top_k'' (TopK req)
           @ presence_penalty
           @ frequency_penalty
           @ omit_bool ''stream'' (Stream req \<noteq> None)))))))"

section \<open>Transport and standard library\<close>

text \<open>
  A response body is a reader: it delivers its bytes and then ends, or fails with a read
  error; the error comes with a read that delivers no bytes. \<open>io.ReadAll\<close> returns the
  bytes read and the error, if any.
\<close>

record body =
  Bytes :: string
  ReadErr :: "error option"

definition ReadAll :: "body \<Rightarrow> string \<times> error option" where
  "ReadAll b = (Bytes b, ReadErr b)"

text \<open>
  \<open>bufio.NewScanner(res.Body)\<close> splits the bytes with \<open>bufio.ScanLines\<close>: a line ends
  at a newline, one carriage return at its end is dropped (\<open>dropCR\<close>), and what follows
  the last newline is a last line when it is not empty. The scanner's buffer grows up to
  \<open>bufio.MaxScanTokenSize\<close>, 64 * 1024 bytes: when that many bytes hold no newline,
  \<open>Scan\<close> returns false and \<open>Err()\<close> is \<open>bufio.ErrTooLong\<close>. Each call of \<open>Scan\<close> that
  returns true gives the line \<open>Text()\<close> together with the value \<open>Err()\<close> has at that
  moment: \<open>nil\<close> for a line that ends at a newline, the read error, if any, for a last
  line without one. Once \<open>Scan\<close> has returned false \<open>Err()\<close> has its final value (\<open>nil\<close>
  at the end of the data). The bytes of a body are finitely many: a response that never
  ends is outside the model.
\<close>

definition newline :: char where "newline = CHR 0x0A"

definition carriage_return :: char where "carriage_return = CHR 0x0D"

definition MaxScanTokenSize :: nat where "MaxScanTokenSize = 64 * 1024"

definition ErrTooLong :: error where
  "ErrTooLong = errorString ''bufio.Scanner: token too long''"

definition dropCR :: "string \<Rightarrow> string" where
  "dropCR data =
     (if 0 < length data \<and> data ! (length data - 1) = carriage_return
      then take (length data - 1) data else data)"

function scan_tokens ::
  "string \<Rightarrow> error option \<Rightarrow> (string \<times> error option) list \<times> error option"
where
  "scan_tokens data err =
     (if data = [] then ([], err)
      else
        (let line = takeWhile (\<lambda>c. c \<noteq> newline) data;
             rest = dropWhile (\<lambda>c. c \<noteq> newline) data
         in if MaxScanTokenSize \<le> length line then ([], Some ErrTooLong)
            else if rest = [] then ([(dropCR line, err)], err)
            else (let (tokens, final) = scan_tokens (tl rest) err
                  in ((dropCR line, None) # tokens, final))))"
  by pat_completeness auto
termination
proof (relation "measure (\<lambda>(data, err). length data)")
  show "wf (measure (\<lambda>(data, err). length data))" by simp
next
  fix data :: string and err :: "error option" and x xa
  assume "data \<noteq> []" and x: "x = takeWhile (\<lambda>c. c \<noteq> newline) data"
    and xa: "xa = dropWhile (\<lambda>c. c \<noteq> newline) data" and ne: "xa \<noteq> []"
  have "length xa \<le> length data"
    unfolding xa by (rule length_dropWhile_le)
  moreover from ne have "length (tl xa) < length xa" by (cases xa) simp_all
  ultimately show "((tl xa, err), (data, err)) \<in> measure (\<lambda>(data, err). length data)"
    by simp
qed

declare scan_tokens.simps [simp del]

text \<open>The lines a scanner on the body yields, and the final value of \<open>Err()\<close>.\<close>

definition Scanned :: "body \<Rightarrow> (string \<times> error option) list" where
  "Scanned b = fst (scan_tokens (Bytes b) (ReadErr b))"

definition Err :: "body \<Rightarrow> error option" where
  "Err b = snd (scan_tokens (Bytes b) (ReadErr b))"

record Response =
  StatusCode :: int
  Status :: string
  Header_ContentType :: string
  Body :: body

record Request =
  Method :: string
  URL :: string
  Header_Authorization :: string
  Header_ContentType_req :: string
  Payload :: json

text \<open>
  The collaborators of one call: \<open>http.NewRequestWithContext\<close> (its error for the URL
  and the context, if any), the client's \<open>Do\<close>, and \<open>json.Unmarshal\<close> into an
  \<open>apiError\<close> and into a \<open>ChatCompletionResponse\<close>.
\<close>

record env =
  NewRequestWithContext :: "string \<Rightarrow> error option"
  Do :: "Request \<Rightarrow> error + Response"
  Unmarshal_apiError :: "string \<Rightarrow> error + apiError"
  Unmarshal_response :: "string \<Rightarrow> error + ChatCompletionResponse"

record Client =
  token :: string
  baseURL :: string

text \<open>
  The effects of a call, as a test double would count them: the requests handed to
  \<open>Do\<close>, the calls of \<open>res.Body.Close()\<close>, the reads of the body (one per \<open>io.ReadAll\<close>
  and one per \<open>Scan\<close>), and the values the callback was called with, in order.
\<close>

record world =
  sent :: "Request list"
  closes :: nat
  reads :: nat
  calls :: "ChatCompletionResponse list"

definition http_StatusOK :: int where "http_StatusOK = 200"

section \<open>The streaming loop\<close>

text \<open>
  The \<open>for scanner.Scan()\<close> loop of \<open>handleStreamingResponse\<close> followed by the check of
  \<open>scanner.Err()\<close>: \<open>continue\<close> on an empty line, \<open>break\<close> on the sentinel, decode and
  call back on a line with the prefix \<open>data: \<close>, and fall through to the next line
  otherwise. The result is the error returned.
\<close>

definition after_loop :: "error option \<Rightarrow> error option" where
  "after_loop err =
     (case err of
        Some e \<Rightarrow> Some (Errorf_w ''error reading streaming response: '' e)
      | None \<Rightarrow> None)"

fun scan_loop ::
  "env \<Rightarrow> (string \<times> error option) list \<Rightarrow> error option \<Rightarrow> world \<Rightarrow> error option \<times> world"
where
  "scan_loop E [] final w = (after_loop final, w\<lparr>reads := reads w + 1\<rparr>)"
| "scan_loop E ((line, pending) # rest) final w =
     (let w1 = w\<lparr>reads := reads w + 1\<rparr> in
      if line = [] then scan_loop E rest final w1
      else if line = ''data: [DONE]'' then (after_loop pending, w1)
      else if 6 \<le> length line \<and> take 6 line = ''data: '' then
        (case Unmarshal_response E (drop 6 line) of
           Inl e \<Rightarrow> (Some (Errorf_w ''failed to unmarshal streaming event: '' e), w1)
         | Inr response \<Rightarrow> scan_loop E rest final (w1\<lparr>calls := calls w1 @ [response]\<rparr>))
      else scan_loop E rest final w1)"

text \<open>\<open>handleStreamingResponse\<close>; its \<open>defer res.Body.Close()\<close> runs on every return.\<close>

definition handleStreamingResponse ::
  "env \<Rightarrow> Response \<Rightarrow> 'h option \<Rightarrow> world \<Rightarrow> error option \<times> world"
where
  "handleStreamingResponse E res onUpdate w =
     (let (err, w1) =
        (if onUpdate = None then
           (Some (errors_New ''onUpdate handler is required for streaming responses''), w)
         else scan_loop E (Scanned (Body res)) (Err (Body res)) w)
      in (err, w1\<lparr>closes := closes w1 + 1\<rparr>))"

section \<open>ChatCompletion\<close>

definition is_event_stream :: "string \<Rightarrow> bool" where
  "is_event_stream contentType \<longleftrightarrow>
     contentType = ''text/event-stream'' \<or> prefix ''text/event-stream;'' contentType"

text \<open>
  The statements of \<open>ChatCompletion\<close> after \<open>defer res.Body.Close()\<close>: the status
  check, the content-type check and the single-document path. The result is the pair
  \<open>(*ChatCompletionResponse, error)\<close> that the function returns.
\<close>

definition handle_response ::
  "env \<Rightarrow> 'h ChatCompletionRequest \<Rightarrow> Response \<Rightarrow> world
   \<Rightarrow> (ChatCompletionResponse option \<times> error option) \<times> world"
where
  "handle_response E req res w =
     (if StatusCode res \<noteq> http_StatusOK then
        (let w1 = w\<lparr>reads := reads w + 1\<rparr>;
             bodyBytes = fst (ReadAll (Body res))
         in case Unmarshal_apiError E bodyBytes of
              Inr e \<Rightarrow>
                (if Error e \<noteq> [] then ((None, Some (Errorf_s ''API error: '' (Error e))), w1)
                 else ((None, Some (Errorf_s ''unexpected status code: '' (Status res))), w1))
            | Inl err \<Rightarrow>
                ((None, Some (Errorf_s ''unexpected status code: '' (Status res))), w1))
      else if is_event_stream (Header_ContentType res) then
        (if Stream req = None then
           ((None, Some (errors_New
              ''streaming response received but no stream handler provided'')), w)
         else
           (let (err, w1) = handleStreamingResponse E res (Stream req) w
            in ((None, err), w1)))
      else
        (let w1 = w\<lparr>reads := reads w + 1\<rparr> in
         case ReadAll (Body res) of
           (bodyBytes, Some err) \<Rightarrow> ((None, Some err), w1)
         | (bodyBytes, None) \<Rightarrow>
             (case Unmarshal_response E bodyBytes of
                Inl err \<Rightarrow> ((None, Some err), w1)
              | Inr response \<Rightarrow> ((Some response, None), w1))))"

text \<open>
  The four checks at the head of \<open>ChatCompletion\<close>, in the order of the source; the
  index \<open>len(req.Messages)-1\<close> is read only when the slice is not empty.
\<close>

definition validate :: "'h ChatCompletionRequest \<Rightarrow> error option" where
  "validate req =
     (if ChatCompletionRequest.Model req = [] then Some (errors_New ''model is required'')
      else if len (Messages req) = 0 then
        Some (errors_New ''at least one message is required'')
      else if Role (elems (Messages req) ! (len (Messages req) - 1)) \<noteq> MessageRoleUser then
        Some (errors_New ''the last message must be from the user'')
      else if PresencePenalty req \<noteq> Finite 0 \<and> FrequencyPenalty req \<noteq> Finite 0 then
        Some (errors_New
          ''PresencePenalty and FrequencyPenalty are incompatible; only one should be set'')
      else None)"

text \<open>
  The HTTP request that \<open>ChatCompletion\<close> builds around the marshalled payload. An
  error of \<open>json.Marshal(&req)\<close> is the marshaller's error, returned as it comes.
\<close>

definition endpoint :: "Client \<Rightarrow> string" where
  "endpoint c = baseURL c @ ''/chat/completions''"

definition httpReq :: "Client \<Rightarrow> json \<Rightarrow> Request" where
  "httpReq c jsonData =
     \<lparr>Method = ''POST'', URL = endpoint c,
      Header_Authorization = ''Bearer '' @ token c,
      Header_ContentType_req = ''application/json'',
      Payload = jsonData\<rparr>"

definition ChatCompletion ::
  "env \<Rightarrow> Client \<Rightarrow> 'h ChatCompletionRequest \<Rightarrow> world
   \<Rightarrow> (ChatCompletionResponse option \<times> error option) \<times> world"
where
  "ChatCompletion E c req w =
     (case validate req of
        Some err \<Rightarrow> ((None, Some err), w)
      | None \<Rightarrow>
     (case MarshalJSON req of
        Inl err \<Rightarrow> ((None, Some err), w)
      | Inr jsonData \<Rightarrow>
     (case NewRequestWithContext E (endpoint c) of
        Some err \<Rightarrow> ((None, Some err), w)
      | None \<Rightarrow>
     (let w1 = w\<lparr>sent := sent w @ [httpReq c jsonData]\<rparr>
      in (case Do E (httpReq c jsonData) of
            Inl err \<Rightarrow> ((None, Some err), w1)
          | Inr res \<Rightarrow>
              (let (ret, w2) = handle_response E req res w1
               in (ret, w2\<lparr>closes := closes w2 + 1\<rparr>)))))))"

section \<open>Vocabulary of the properties\<close>

text \<open>
  \<open>received E c req res\<close>: the call of \<open>ChatCompletion\<close> gets as far as the transport
  response \<open>res\<close>, that is, the request passes the checks and is marshalled, the HTTP
  request is created and \<open>Do\<close> returns \<open>res\<close> without an error.
\<close>

definition received :: "env \<Rightarrow> Client \<Rightarrow> 'h ChatCompletionRequest \<Rightarrow> Response \<Rightarrow> bool" where
  "received E c req res \<longleftrightarrow>
     validate req = None \<and>
     (case MarshalJSON req of
        Inl err \<Rightarrow> False
      | Inr jsonData \<Rightarrow>
          NewRequestWithContext E (endpoint c) = None \<and>
          Do E (httpReq c jsonData) = Inr res)"

text \<open>The world once \<open>Do\<close> has been called with the request built for \<open>req\<close>.\<close>

definition after_Do :: "Client \<Rightarrow> 'h ChatCompletionRequest \<Rightarrow> world \<Rightarrow> world" where
  "after_Do c req w =
     (case MarshalJSON req of
        Inl err \<Rightarrow> w
      | Inr jsonData \<Rightarrow> w\<lparr>sent := sent w @ [httpReq c jsonData]\<rparr>)"

text \<open>A line of the stream that carries data, and the data of the lines that do.\<close>

definition is_data_line :: "string \<Rightarrow> bool" where
  "is_data_line l \<longleftrightarrow> prefix ''data: '' l"

definition data_payloads :: "string list \<Rightarrow> string list" where
  "data_payloads ls = map (drop 6) (filter is_data_line ls)"

definition payloads :: "(string \<times> error option) list \<Rightarrow> string list" where
  "payloads ts = data_payloads (map fst ts)"

text \<open>
  The bytes of a sequence of lines, each ended by a newline; a carriage return at the end
  of a line belongs to its line end, and the scanner drops it. \<open>short_line\<close>: the bytes
  of one line, fewer than the scanner's token limit.
\<close>

definition lines_bytes :: "string list \<Rightarrow> string" where
  "lines_bytes ls = concat (map (\<lambda>l. l @ [newline]) ls)"

definition short_line :: "string \<Rightarrow> bool" where
  "short_line l \<longleftrightarrow> newline \<notin> set l \<and> length l < MaxScanTokenSize"

definition is_finite :: "float64 \<Rightarrow> bool" where
  "is_finite x = (case x of Finite r \<Rightarrow> True | NaN \<Rightarrow> False | Inf b \<Rightarrow> False)"

definition validation_errors :: "error set" where
  "validation_errors =
     {errors_New ''model is required'',
      errors_New ''at least one message is required'',
      errors_New ''the last message must be from the user'',
      errors_New
        ''PresencePenalty and FrequencyPenalty are incompatible; only one should be set''}"

definition wire_keys :: "string set" where
  "wire_keys =
     {''model'', ''messages'', ''max_tokens'', ''temperature'', ''top_p'',
      ''return_citations'', ''search_domain_filter'', ''return_images'',
      ''return_related_questions'', ''search_recency_filter'', ''top_k'', ''stream'',
      ''presence_penalty'', ''frequency_penalty''}"

section \<open>Concrete inputs\<close>

text \<open>
  A client, a request, bodies and decoders to run the definitions on. The decoders stand
  for \<open>json.Unmarshal\<close> on the few texts used below.
\<close>

definition w0 :: world where
  "w0 = \<lparr>sent = [], closes = 0, reads = 0, calls = []\<rparr>"

definition body_of_lines :: "string list \<Rightarrow> body" where
  "body_of_lines ls = \<lparr>Bytes = lines_bytes ls, ReadErr = None\<rparr>"

definition body_of_bytes :: "string \<Rightarrow> body" where
  "body_of_bytes b = \<lparr>Bytes = b, ReadErr = None\<rparr>"

definition demo_client :: Client where
  "demo_client = \<lparr>token = ''secret'', baseURL = ''https://api.perplexity.ai''\<rparr>"

definition demo_request :: "unit option \<Rightarrow> unit ChatCompletionRequest" where
  "demo_request cb =
     \<lparr>Model = ''llama-3.1-sonar-small-128k-online'',
      Messages = Some [\<lparr>Role = ''user'', Content = ''Hello''\<rparr>],
      MaxTokens = 0, Temperature = Finite 0, TopP = Finite 0,
      ReturnCitations = False, SearchDomainFilter = None, ReturnImages = False,
      ReturnRelatedQuestions = False, SearchRecencyFilter = [], TopK = 0,
      Stream = cb, PresencePenalty = Finite 0, FrequencyPenalty = Finite 0\<rparr>"

definition demo_event :: "string \<Rightarrow> ChatCompletionResponse" where
  "demo_event i =
     \<lparr>ID = i, Model = [], Object = [], Created = 0, Choices = None,
      Usage = \<lparr>PromptTokens = 0, CompletionTokens = 0, TotalTokens = 0\<rparr>\<rparr>"

definition demo_Unmarshal_response :: "string \<Rightarrow> error + ChatCompletionResponse" where
  \<open>demo_Unmarshal_response s =
     (if s = ''{"id":"a"}'' then Inr (demo_event ''a'')
      else if s = ''{"id":"b"}'' then Inr (demo_event ''b'')
      else Inl (errorString ''invalid character''))\<close>

definition demo_Unmarshal_apiError :: "string \<Rightarrow> error + apiError" where
  \<open>demo_Unmarshal_apiError s =
     (if s = ''{"error":"bad request"}'' then Inr \<lparr>Error = ''bad request''\<rparr>
      else if s = ''{}'' then Inr \<lparr>Error = []\<rparr>
      else Inl (errorString ''invalid character''))\<close>

definition demo_env :: "Response \<Rightarrow> env" where
  "demo_env res =
     \<lparr>NewRequestWithContext = (\<lambda>url. None),
      Do = (\<lambda>r. Inr res),
      Unmarshal_apiError = demo_Unmarshal_apiError,
      Unmarshal_response = demo_Unmarshal_response\<rparr>"

definition demo_response :: "int \<Rightarrow> string \<Rightarrow> string \<Rightarrow> body \<Rightarrow> Response" where
  "demo_response code status contentType b =
     \<lparr>StatusCode = code, Status = status, Header_ContentType = contentType, Body = b\<rparr>"

definition demo_stream :: "string list \<Rightarrow> Response" where
  "demo_stream ls = demo_response 200 ''200 OK'' ''text/event-stream'' (body_of_lines ls)"

text \<open>
  A JSON object of 64 KiB of blanks between its braces, which \<open>json.Unmarshal\<close> decodes
  to the zero response, a text of 64 KiB that is not JSON, and a decoder that stands
  for \<open>json.Unmarshal\<close> on them as well.
\<close>

definition long_payload :: string where
  "long_payload = ''{'' @ replicate 65536 (CHR '' '') @ ''}''"

definition long_garbage :: string where
  "long_garbage = replicate 65536 (CHR ''x'')"

definition long_Unmarshal_response :: "string \<Rightarrow> error + ChatCompletionResponse" where
  "long_Unmarshal_response s =
     (if s = long_payload then Inr (demo_event [])
      else if s = long_garbage then Inl (errorString ''invalid character'')
      else demo_Unmarshal_response s)"

definition long_valid_stream :: Response where
  "long_valid_stream = demo_stream [''data: '' @ long_payload, ''data: [DONE]'']"


definition long_env :: "Response \<Rightarrow> env" where
  "long_env res = (demo_env res)\<lparr>Unmarshal_response := long_Unmarshal_response\<rparr>"

section \<open>Basic facts\<close>

lemma ChatCompletion_received:
  assumes "received E c req res"
  shows "ChatCompletion E c req w =
           (let (ret, w2) = handle_response E req res (after_Do c req w)
            in (ret, w2\<lparr>closes := closes w2 + 1\<rparr>))"
  using assms
  by (auto simp: received_def ChatCompletion_def after_Do_def Let_def split: sum.splits option.splits)

lemma is_data_line_iff: "is_data_line l \<longleftrightarrow> 6 \<le> length l \<and> take 6 l = ''data: ''"
proof
  assume "is_data_line l"
  then obtain zs where "l = ''data: '' @ zs"
    unfolding is_data_line_def prefix_def by blast
  then show "6 \<le> length l \<and> take 6 l = ''data: ''" by simp
next
  assume "6 \<le> length l \<and> take 6 l = ''data: ''"
  then have "l = ''data: '' @ drop 6 l"
    by (metis append_take_drop_id)
  then show "is_data_line l"
    unfolding is_data_line_def prefix_def by blast
qed

lemma sentinel_is_data: "is_data_line ''data: [DONE]''"
  by (simp add: is_data_line_def)

lemma scan_loop_skip:
  assumes "line = [] \<or> (line \<noteq> ''data: [DONE]'' \<and> \<not> is_data_line line)"
  shows "scan_loop E ((line, pending) # rest) final w =
         scan_loop E rest final (w\<lparr>reads := reads w + 1\<rparr>)"
  using assms by (auto simp: is_data_line_iff Let_def)

lemma scan_loop_data:
  assumes "Unmarshal_response E p = Inr r" "p \<noteq> ''[DONE]''"
  shows "scan_loop E ((''data: '' @ p, pending) # rest) final w =
         scan_loop E rest final (w\<lparr>reads := reads w + 1, calls := calls w @ [r]\<rparr>)"
  using assms by (simp add: Let_def)


lemma scan_loop_done:
  "scan_loop E ((''data: [DONE]'', pending) # rest) final w =
     (after_loop pending, w\<lparr>reads := reads w + 1\<rparr>)"
  by (simp add: Let_def)

lemma scan_loop_valid_prefix:
  assumes "map (Unmarshal_response E) (payloads pre) = map Inr rs"
    and "''[DONE]'' \<notin> set (payloads pre)"
  shows "scan_loop E (pre @ rest) final w =
         scan_loop E rest final (w\<lparr>reads := reads w + length pre, calls := calls w @ rs\<rparr>)"
  using assms
proof (induction pre arbitrary: w rs)
  case Nil
  then show ?case by (simp add: payloads_def data_payloads_def)
next
  case (Cons t pre)
  obtain line pending where t: "t = (line, pending)" by (cases t)
  show ?case
  proof (cases "is_data_line line")
    case False
    then have skip: "line = [] \<or> (line \<noteq> ''data: [DONE]'' \<and> \<not> is_data_line line)"
      using sentinel_is_data by auto
    from False have pl: "payloads (t # pre) = payloads pre"
      by (simp add: payloads_def data_payloads_def t)
    from Cons.prems pl
    have "map (Unmarshal_response E) (payloads pre) = map Inr rs"
      and "''[DONE]'' \<notin> set (payloads pre)"
      by simp_all
    from Cons.IH[OF this, of "w\<lparr>reads := reads w + 1\<rparr>"]
    show ?thesis
      by (simp add: t scan_loop_skip[OF skip] del: scan_loop.simps)
  next
    case True
    then obtain p where line: "line = ''data: '' @ p"
      by (auto simp: is_data_line_def prefix_def)
    have pl: "payloads (t # pre) = p # payloads pre"
      using True by (simp add: payloads_def data_payloads_def t line)
    from Cons.prems pl obtain r rs' where rs: "rs = r # rs'"
      and r: "Unmarshal_response E p = Inr r"
      and rest: "map (Unmarshal_response E) (payloads pre) = map Inr rs'"
      by (cases rs) auto
    from Cons.prems pl have ne: "p \<noteq> ''[DONE]''" and nin: "''[DONE]'' \<notin> set (payloads pre)"
      by auto
    have "scan_loop E ((t # pre) @ rest) final w =
          scan_loop E (pre @ rest) final (w\<lparr>reads := reads w + 1, calls := calls w @ [r]\<rparr>)"
      using scan_loop_data[OF r ne, of pending "pre @ rest" final w]
      by (simp add: t line del: scan_loop.simps)
    also have "\<dots> = scan_loop E rest final
        (w\<lparr>reads := reads w + length (t # pre), calls := calls w @ rs\<rparr>)"
      using Cons.IH[OF rest nin, of "w\<lparr>reads := reads w + 1, calls := calls w @ [r]\<rparr>"]
      by (simp add: rs)
    finally show ?thesis .
  qed
qed

lemma after_Do_fields [simp]:
  "closes (after_Do c req w) = closes w"
  "reads (after_Do c req w) = reads w"
  "calls (after_Do c req w) = calls w"
  by (simp_all add: after_Do_def split: sum.splits)

lemma scan_loop_closes [simp]: "closes (snd (scan_loop E ts final w)) = closes w"
  by (induction E ts final w rule: scan_loop.induct) (auto simp: Let_def split: sum.splits)

lemma ChatCompletion_streaming:
  assumes "received E c req res"
    and "StatusCode res = http_StatusOK"
    and "is_event_stream (Header_ContentType res)"
    and "Stream req = Some h"
  shows "ChatCompletion E c req w =
           (let (err, w1) = scan_loop E (Scanned (Body res)) (Err (Body res)) (after_Do c req w)
            in ((None, err), w1\<lparr>closes := closes w1 + 2\<rparr>))"
  using assms(2-4)
  by (simp add: ChatCompletion_received[OF assms(1)] handle_response_def
      handleStreamingResponse_def Let_def split: prod.splits)

lemma demo_received: "received (demo_env res) demo_client (demo_request cb) res"
  by (simp add: received_def validate_def demo_request_def len_def MessageRoleUser_def
      MarshalJSON_def omit_float_def demo_env_def)


lemma dropCR_eq:
  "dropCR data =
     (if data \<noteq> [] \<and> last data = carriage_return then butlast data else data)"
  by (auto simp: dropCR_def last_conv_nth butlast_conv_take)

lemma scan_tokens_Nil: "scan_tokens [] err = ([], err)"
  by (simp add: scan_tokens.simps)

lemma scan_tokens_line:
  assumes "newline \<notin> set l"
  shows "scan_tokens (l @ newline # rest) err =
           (if MaxScanTokenSize \<le> length l then ([], Some ErrTooLong)
            else ((dropCR l, None) # fst (scan_tokens rest err), snd (scan_tokens rest err)))"
proof -
  have P: "x \<noteq> newline" if "x \<in> set l" for x
    using that assms by auto
  have t: "takeWhile (\<lambda>c. c \<noteq> newline) (l @ newline # rest) = l"
    using takeWhile_append2[of l "\<lambda>c. c \<noteq> newline" "newline # rest"] P by simp
  have d: "dropWhile (\<lambda>c. c \<noteq> newline) (l @ newline # rest) = newline # rest"
    using dropWhile_append2[of l "\<lambda>c. c \<noteq> newline" "newline # rest"] P by simp
  show ?thesis
    by (subst scan_tokens.simps) (simp add: t d Let_def split_beta)
qed

lemma scan_tokens_lines:
  assumes "\<forall>l \<in> set ls. short_line l"
  shows "scan_tokens (lines_bytes ls @ tail) err =
           (map (\<lambda>l. (l, None)) (map dropCR ls) @ fst (scan_tokens tail err),
            snd (scan_tokens tail err))"
  using assms
proof (induction ls)
  case Nil
  then show ?case by (simp add: lines_bytes_def)
next
  case (Cons l ls)
  then have nl: "newline \<notin> set l" and len: "length l < MaxScanTokenSize"
    by (simp_all add: short_line_def)
  have "scan_tokens (lines_bytes (l # ls) @ tail) err =
        scan_tokens (l @ newline # (lines_bytes ls @ tail)) err"
    by (simp add: lines_bytes_def)
  also have "\<dots> = ((dropCR l, None) # fst (scan_tokens (lines_bytes ls @ tail) err),
                   snd (scan_tokens (lines_bytes ls @ tail) err))"
    using len by (simp add: scan_tokens_line[OF nl])
  finally show ?case
    using Cons by simp
qed

lemma Scanned_lines:
  assumes "Bytes b = lines_bytes ls @ tail"
    and "\<forall>l \<in> set ls. short_line l"
  shows "Scanned b =
           map (\<lambda>l. (l, None)) (map dropCR ls) @ fst (scan_tokens tail (ReadErr b))"
    and "Err b = snd (scan_tokens tail (ReadErr b))"
  by (simp_all add: Scanned_def Err_def assms(1) scan_tokens_lines[OF assms(2)])

lemma Scanned_too_long:
  assumes "Bytes b = lines_bytes ls @ lines_bytes [l] @ tail"
    and "\<forall>l \<in> set ls. short_line l"
    and "newline \<notin> set l" and "MaxScanTokenSize \<le> length l"
  shows "Scanned b = map (\<lambda>l. (l, None)) (map dropCR ls)" and "Err b = Some ErrTooLong"
proof -
  have "scan_tokens (lines_bytes [l] @ tail) (ReadErr b) = ([], Some ErrTooLong)"
    using scan_tokens_line[OF assms(3), of tail "ReadErr b"] assms(4)
    by (simp add: lines_bytes_def)
  then show "Scanned b = map (\<lambda>l. (l, None)) (map dropCR ls)" and "Err b = Some ErrTooLong"
    by (simp_all add: Scanned_def Err_def assms(1) scan_tokens_lines[OF assms(2)])
qed

lemma Scanned_body_of_lines:
  assumes "\<forall>l \<in> set ls. short_line l"
  shows "Scanned (body_of_lines ls) = map (\<lambda>l. (l, None)) (map dropCR ls)"
    and "Err (body_of_lines ls) = None"
  using Scanned_lines[of "body_of_lines ls" ls "[]", OF _ assms]
  by (simp_all add: body_of_lines_def scan_tokens_Nil)

lemma payloads_lines: "payloads (map (\<lambda>l. (l, e)) ls) = data_payloads ls"
  by (simp add: payloads_def comp_def)

lemma data_payloads_data: "data_payloads (map (\<lambda>p. ''data: '' @ p) ps) = ps"
  by (induction ps) (simp_all add: data_payloads_def is_data_line_def)

lemma data_payloads_append:
  "data_payloads (xs @ ys) = data_payloads xs @ data_payloads ys"
  by (simp add: data_payloads_def)

lemma decoded_length:
  assumes "map (Unmarshal_response E) ps = map Inr rs"
  shows "length rs = length ps"
proof -
  have "length (map (Unmarshal_response E) ps) =
        length (map Inr rs :: (error + ChatCompletionResponse) list)"
    using assms by simp
  then show ?thesis by simp
qed

text \<open>
  The streaming path of \<open>ChatCompletion\<close> once the loop has gone through a prefix of the
  lines in which every data line decodes and none is the sentinel.
\<close>

lemma ChatCompletion_stream_prefix:
  assumes rcv: "received E c req res"
    and ok: "StatusCode res = http_StatusOK"
    and ct: "is_event_stream (Header_ContentType res)"
    and cb: "Stream req = Some h"
    and toks: "Scanned (Body res) = pre @ rest"
    and valid: "map (Unmarshal_response E) (payloads pre) = map Inr rs"
    and nd: "''[DONE]'' \<notin> set (payloads pre)"
  shows "ChatCompletion E c req w =
           (let (err, w1) = scan_loop E rest (Err (Body res))
              ((after_Do c req w)\<lparr>reads := reads w + length pre, calls := calls w @ rs\<rparr>)
            in ((None, err), w1\<lparr>closes := closes w1 + 2\<rparr>))"
  using scan_loop_valid_prefix[OF valid nd, of rest "Err (Body res)" "after_Do c req w"]
  by (simp add: ChatCompletion_streaming[OF rcv ok ct cb] toks)

lemma long_payload_line:
  "newline \<notin> set (''data: '' @ long_payload)"
  "MaxScanTokenSize \<le> length (''data: '' @ long_payload)"
  "dropCR (''data: '' @ long_payload) = ''data: '' @ long_payload"
  by (simp_all add: dropCR_eq long_payload_def newline_def carriage_return_def
      MaxScanTokenSize_def)



lemma long_not_sentinel: "long_payload \<noteq> ''[DONE]''" "long_garbage \<noteq> ''[DONE]''"
proof -
  have "length long_payload \<noteq> length ''[DONE]''" "length long_garbage \<noteq> length ''[DONE]''"
    by (simp_all add: long_payload_def long_garbage_def)
  then show "long_payload \<noteq> ''[DONE]''" "long_garbage \<noteq> ''[DONE]''"
    by fastforce+
qed

lemma long_received: "received (long_env res) demo_client (demo_request cb) res"
  using demo_received[of res cb]
  by (simp add: received_def long_env_def demo_env_def split: sum.splits)

lemma demo_stream_fields:
  "StatusCode (demo_stream ls) = 200"
  "StatusCode (demo_stream ls) = http_StatusOK"
  "is_event_stream (Header_ContentType (demo_stream ls))"
  "Body (demo_stream ls) = body_of_lines ls"
  by (simp_all add: demo_stream_def demo_response_def http_StatusOK_def is_event_stream_def)

section \<open>Streaming\<close>

text \<open>
  C1. A stream body of N lines \<open>data: <valid JSON>\<close> followed by the line
  \<open>data: [DONE]\<close>, every line ended by a newline or by a carriage return and a newline
  and shorter than the scanner's token limit of 64 * 1024 bytes: \<open>ChatCompletion\<close> calls
  the callback exactly N times, once per line and in the order of the lines (the calls
  added to the world are the decoded values \<open>rs\<close> of the N payloads \<open>ps\<close>), and returns
  a nil response and a nil error. A valid payload decodes, and is never the text
  \<open>[DONE]\<close>, which is not JSON.
\<close>

theorem streaming_termination:
  assumes rcv: "received E c req res"
    and ok: "StatusCode res = 200"
    and ct: "is_event_stream (Header_ContentType res)"
    and cb: "Stream req = Some h"
    and body: "Bytes (Body res) = lines_bytes ls"
    and lines: "\<forall>l \<in> set ls. short_line l"
    and form: "map dropCR ls = map (\<lambda>p. ''data: '' @ p) ps @ [''data: [DONE]'']"
    and valid: "map (Unmarshal_response E) ps = map Inr rs"
    and nd: "''[DONE]'' \<notin> set ps"
  shows "fst (ChatCompletion E c req w) = (None, None) \<and>
         calls (snd (ChatCompletion E c req w)) = calls w @ rs \<and>
         length rs = length ps"
proof -
  let ?pre = "map (\<lambda>l. (l, None :: error option)) (map (\<lambda>p. ''data: '' @ p) ps)"
  have b: "Bytes (Body res) = lines_bytes ls @ []"
    using body by simp
  have toks: "Scanned (Body res) = ?pre @ [(''data: [DONE]'', None)]"
    using Scanned_lines(1)[OF b lines] by (simp add: scan_tokens_Nil form)
  have v: "map (Unmarshal_response E) (payloads ?pre) = map Inr rs"
    and n: "''[DONE]'' \<notin> set (payloads ?pre)"
    unfolding payloads_lines data_payloads_data using valid nd by simp_all
  from ok have ok': "StatusCode res = http_StatusOK" by (simp add: http_StatusOK_def)
  show ?thesis
    by (simp add: ChatCompletion_stream_prefix[OF rcv ok' ct cb toks v n] scan_loop_done
        after_loop_def decoded_length[OF valid] del: scan_loop.simps)
qed

theorem streaming_termination_witness:
  \<open>fst (ChatCompletion
         (demo_env (demo_stream
            [''data: {"id":"a"}'', ''data: {"id":"b"}'' @ [carriage_return], ''data: [DONE]'']))
         demo_client (demo_request (Some ())) w0) = (None, None) \<and>
    calls (snd (ChatCompletion
         (demo_env (demo_stream
            [''data: {"id":"a"}'', ''data: {"id":"b"}'' @ [carriage_return], ''data: [DONE]'']))
         demo_client (demo_request (Some ())) w0)) = [demo_event ''a'', demo_event ''b'']\<close>
proof -
  let ?ls = \<open>[''data: {"id":"a"}'', ''data: {"id":"b"}'' @ [carriage_return], ''data: [DONE]'']\<close>
  let ?res = "demo_stream ?ls"
  have cb: "Stream (demo_request (Some ())) = Some ()"
    by (simp add: demo_request_def)
  have body: "Bytes (Body ?res) = lines_bytes ?ls"
    by (simp add: demo_stream_fields body_of_lines_def)
  have lines: "\<forall>l \<in> set ?ls. short_line l"
    by (simp add: short_line_def newline_def carriage_return_def MaxScanTokenSize_def)
  have form: \<open>map dropCR ?ls =
      map (\<lambda>p. ''data: '' @ p) [''{"id":"a"}'', ''{"id":"b"}''] @ [''data: [DONE]'']\<close>
    by (simp add: dropCR_eq carriage_return_def)
  have valid: \<open>map (Unmarshal_response (demo_env ?res)) [''{"id":"a"}'', ''{"id":"b"}''] =
      map Inr [demo_event ''a'', demo_event ''b'']\<close>
    by (simp add: demo_env_def demo_Unmarshal_response_def)
  have nd: \<open>''[DONE]'' \<notin> set [''{"id":"a"}'', ''{"id":"b"}'']\<close>
    by simp
  from streaming_termination[OF demo_received demo_stream_fields(1) demo_stream_fields(3)
      cb body lines form valid nd, of w0]
  show ?thesis by (simp add: w0_def)
qed

text \<open>
  Without the bound on the length of the lines the property fails: for one line
  \<open>data: \<close> followed by a JSON object of more than 64 KiB, which decodes, and the
  sentinel line, the scanner stops with \<open>bufio.ErrTooLong\<close>, the callback is not called
  and the call returns the error wrapped as a read failure.
\<close>

theorem streaming_termination_long_line:
  "Unmarshal_response (long_env long_valid_stream) long_payload = Inr (demo_event []) \<and>
   long_payload \<noteq> ''[DONE]'' \<and>
   newline \<notin> set (''data: '' @ long_payload) \<and>
   Bytes (Body long_valid_stream) =
     lines_bytes [''data: '' @ long_payload, ''data: [DONE]''] \<and>
   map dropCR [''data: '' @ long_payload, ''data: [DONE]''] =
     map (\<lambda>p. ''data: '' @ p) [long_payload] @ [''data: [DONE]''] \<and>
   fst (ChatCompletion (long_env long_valid_stream) demo_client (demo_request (Some ())) w0) =
     (None, Some (Errorf_w ''error reading streaming response: '' ErrTooLong)) \<and>
   calls (snd (ChatCompletion (long_env long_valid_stream) demo_client
                 (demo_request (Some ())) w0)) = []"
proof -
  let ?E = "long_env long_valid_stream"
  have f: "StatusCode long_valid_stream = http_StatusOK"
    "is_event_stream (Header_ContentType long_valid_stream)"
    "Body long_valid_stream = body_of_lines [''data: '' @ long_payload, ''data: [DONE]'']"
    unfolding long_valid_stream_def by (rule demo_stream_fields)+
  have dec: "Unmarshal_response ?E long_payload = Inr (demo_event [])"
    by (simp add: long_env_def long_Unmarshal_response_def)
  have body: "Bytes (Body long_valid_stream) =
      lines_bytes [''data: '' @ long_payload, ''data: [DONE]'']"
    by (simp add: f(3) body_of_lines_def)
  have form: "map dropCR [''data: '' @ long_payload, ''data: [DONE]''] =
      map (\<lambda>p. ''data: '' @ p) [long_payload] @ [''data: [DONE]'']"
    using long_payload_line(3) by (simp add: dropCR_eq carriage_return_def)
  have b: "Bytes (Body long_valid_stream) =
      lines_bytes [] @ lines_bytes [''data: '' @ long_payload] @ lines_bytes [''data: [DONE]'']"
    by (simp add: f(3) body_of_lines_def lines_bytes_def)
  have toks: "Scanned (Body long_valid_stream) = [] @ []"
    and err: "Err (Body long_valid_stream) = Some ErrTooLong"
    using Scanned_too_long[OF b _ long_payload_line(1) long_payload_line(2)] by simp_all
  have cb: "Stream (demo_request (Some ())) = Some ()"
    by (simp add: demo_request_def)
  have run: "ChatCompletion ?E demo_client (demo_request (Some ())) w0 =
      ((None, Some (Errorf_w ''error reading streaming response: '' ErrTooLong)),
       (after_Do demo_client (demo_request (Some ())) w0)\<lparr>reads := 1, calls := [], closes := 2\<rparr>)"
    using ChatCompletion_stream_prefix[OF long_received f(1) f(2) cb toks, of "[]" w0]
    by (simp add: payloads_def data_payloads_def err after_loop_def w0_def)
  have "fst (ChatCompletion ?E demo_client (demo_request (Some ())) w0) =
          (None, Some (Errorf_w ''error reading streaming response: '' ErrTooLong))"
    and "calls (snd (ChatCompletion ?E demo_client (demo_request (Some ())) w0)) = []"
    by (simp_all add: run)
  with dec long_not_sentinel(1) long_payload_line(1) body form show ?thesis
    by blast
qed




text \<open>
  C8. In the read loop an empty line, and a non-empty line that is neither the sentinel
  \<open>data: [DONE]\<close> nor has the prefix \<open>data: \<close>, is ignored: the loop goes on with the
  next line, the callback is not called and no error is produced; only the read is
  counted.
\<close>

theorem ignored_lines:
  assumes "line = [] \<or> (line \<noteq> ''data: [DONE]'' \<and> \<not> prefix ''data: '' line)"
  shows "scan_loop E ((line, pending) # rest) final w =
         scan_loop E rest final (w\<lparr>reads := reads w + 1\<rparr>)"
  using assms unfolding is_data_line_def[symmetric] by (rule scan_loop_skip)

theorem ignored_lines_witness:
  "scan_loop (demo_env (demo_stream [])) (('''', None) # [(''data: [DONE]'', None)]) None w0 =
   scan_loop (demo_env (demo_stream [])) [(''data: [DONE]'', None)] None
     (w0\<lparr>reads := reads w0 + 1\<rparr>) \<and>
   scan_loop (demo_env (demo_stream [])) (('': keep-alive'', None) # [(''data: [DONE]'', None)])
     None w0 =
   scan_loop (demo_env (demo_stream [])) [(''data: [DONE]'', None)] None
     (w0\<lparr>reads := reads w0 + 1\<rparr>) \<and>
   scan_loop (demo_env (demo_stream [])) [(''data: [DONE]'', None)] None
     (w0\<lparr>reads := reads w0 + 1\<rparr>) = (None, w0\<lparr>reads := 2\<rparr>)"
proof (intro conjI)
  show "scan_loop (demo_env (demo_stream [])) (('''', None) # [(''data: [DONE]'', None)]) None w0 =
   scan_loop (demo_env (demo_stream [])) [(''data: [DONE]'', None)] None
     (w0\<lparr>reads := reads w0 + 1\<rparr>)"
    by (rule ignored_lines) simp
  show "scan_loop (demo_env (demo_stream [])) (('': keep-alive'', None) # [(''data: [DONE]'', None)])
     None w0 =
   scan_loop (demo_env (demo_stream [])) [(''data: [DONE]'', None)] None
     (w0\<lparr>reads := reads w0 + 1\<rparr>)"
    by (rule ignored_lines) simp
  show "scan_loop (demo_env (demo_stream [])) [(''data: [DONE]'', None)] None
     (w0\<lparr>reads := reads w0 + 1\<rparr>) = (None, w0\<lparr>reads := 2\<rparr>)"
    by (simp add: w0_def after_loop_def)
qed

lemma handle_response_not_OK:
  assumes "StatusCode res \<noteq> http_StatusOK"
  shows "handle_response E req res w =
     ((None, Some (case Unmarshal_apiError E (fst (ReadAll (Body res))) of
                     Inr e \<Rightarrow> if Error e \<noteq> [] then Errorf_s ''API error: '' (Error e)
                              else Errorf_s ''unexpected status code: '' (Status res)
                   | Inl err \<Rightarrow> Errorf_s ''unexpected status code: '' (Status res))),
      w\<lparr>reads := reads w + 1\<rparr>)"
  using assms by (simp add: handle_response_def Let_def split: sum.splits)

section \<open>Classification of the response\<close>

text \<open>
  C5. A response with status 200 whose content type is an event stream, for a request
  without a callback: \<open>ChatCompletion\<close> returns the error \<open>streaming response received
  but no stream handler provided\<close> and no read of the body has taken place.
\<close>

theorem missing_handler:
  assumes rcv: "received E c req res"
    and ok: "StatusCode res = 200"
    and ct: "is_event_stream (Header_ContentType res)"
    and cb: "Stream req = None"
  shows "fst (ChatCompletion E c req w) =
           (None, Some (errors_New
              ''streaming response received but no stream handler provided'')) \<and>
         reads (snd (ChatCompletion E c req w)) = reads w \<and>
         calls (snd (ChatCompletion E c req w)) = calls w"
  using ok ct cb
  by (simp add: ChatCompletion_received[OF rcv] handle_response_def http_StatusOK_def)

theorem missing_handler_witness:
  \<open>fst (ChatCompletion (demo_env (demo_stream [''data: {"id":"a"}'', ''data: [DONE]'']))
          demo_client (demo_request None) w0) =
      (None, Some (errorString ''streaming response received but no stream handler provided'')) \<and>
    reads (snd (ChatCompletion (demo_env (demo_stream [''data: {"id":"a"}'', ''data: [DONE]'']))
          demo_client (demo_request None) w0)) = 0\<close>
proof -
  let ?res = \<open>demo_stream [''data: {"id":"a"}'', ''data: [DONE]'']\<close>
  have ok: "StatusCode ?res = 200"
    by (simp add: demo_stream_def demo_response_def)
  have ct: "is_event_stream (Header_ContentType ?res)"
    by (simp add: demo_stream_def demo_response_def is_event_stream_def)
  have cb: "Stream (demo_request None) = None"
    by (simp add: demo_request_def)
  from missing_handler[OF demo_received ok ct cb, where w = w0]
  show ?thesis by (simp add: w0_def errors_New_def)
qed

text \<open>
  C6. A response whose status is not 200: when the body decodes as an \<open>apiError\<close> with a
  non-empty message, the error returned is \<open>API error: \<close> followed by that message, and
  so contains it; otherwise the error returned is \<open>unexpected status code: \<close> followed
  by the status text.
\<close>

theorem api_error_message:
  assumes rcv: "received E c req res"
    and nok: "StatusCode res \<noteq> 200"
  shows "(\<forall>e. Unmarshal_apiError E (fst (ReadAll (Body res))) = Inr e \<and> Error e \<noteq> [] \<longrightarrow>
            fst (ChatCompletion E c req w) =
              (None, Some (errorString (''API error: '' @ Error e))) \<and>
            sublist (Error e) (''API error: '' @ Error e)) \<and>
         ((\<forall>e. Unmarshal_apiError E (fst (ReadAll (Body res))) = Inr e \<longrightarrow> Error e = []) \<longrightarrow>
            fst (ChatCompletion E c req w) =
              (None, Some (errorString (''unexpected status code: '' @ Status res))))"
proof (intro conjI allI impI)
  from nok have nok': "StatusCode res \<noteq> http_StatusOK" by (simp add: http_StatusOK_def)
  note cc = ChatCompletion_received[OF rcv] handle_response_not_OK[OF nok'] Errorf_s_def
  {
    fix e
    assume "Unmarshal_apiError E (fst (ReadAll (Body res))) = Inr e \<and> Error e \<noteq> []"
    then show "fst (ChatCompletion E c req w) =
        (None, Some (errorString (''API error: '' @ Error e)))"
      by (simp add: cc)
    show "sublist (Error e) (''API error: '' @ Error e)"
      by (rule sublist_append_leftI)
  }
  assume "\<forall>e. Unmarshal_apiError E (fst (ReadAll (Body res))) = Inr e \<longrightarrow> Error e = []"
  then show "fst (ChatCompletion E c req w) =
      (None, Some (errorString (''unexpected status code: '' @ Status res)))"
    by (simp add: cc split: sum.splits)
qed

theorem api_error_message_witness:
  \<open>fst (ChatCompletion
          (demo_env (demo_response 400 ''400 Bad Request'' ''application/json''
             (body_of_bytes ''{"error":"bad request"}'')))
          demo_client (demo_request None) w0) =
      (None, Some (errorString ''API error: bad request'')) \<and>
    sublist ''bad request'' (''API error: '' @ ''bad request'') \<and>
    fst (ChatCompletion
          (demo_env (demo_response 500 ''500 Internal Server Error'' ''text/html''
             (body_of_bytes ''<html>'')))
          demo_client (demo_request None) w0) =
      (None, Some (errorString ''unexpected status code: 500 Internal Server Error''))\<close>
proof -
  let ?r1 = \<open>demo_response 400 ''400 Bad Request'' ''application/json''
             (body_of_bytes ''{"error":"bad request"}'')\<close>
  let ?r2 = \<open>demo_response 500 ''500 Internal Server Error'' ''text/html''
             (body_of_bytes ''<html>'')\<close>
  have n1: "StatusCode ?r1 \<noteq> 200" and n2: "StatusCode ?r2 \<noteq> 200"
    by (simp_all add: demo_response_def)
  have d1: "Unmarshal_apiError (demo_env ?r1) (fst (ReadAll (Body ?r1))) =
              Inr \<lparr>Error = ''bad request''\<rparr> \<and> Error \<lparr>Error = ''bad request''\<rparr> \<noteq> []"
    by (simp add: demo_env_def demo_response_def body_of_bytes_def ReadAll_def
        demo_Unmarshal_apiError_def)
  have d2: "\<forall>e. Unmarshal_apiError (demo_env ?r2) (fst (ReadAll (Body ?r2))) = Inr e \<longrightarrow>
              Error e = []"
    by (simp add: demo_env_def demo_response_def body_of_bytes_def ReadAll_def
        demo_Unmarshal_apiError_def)
  from api_error_message[OF demo_received n1, where w = w0]
  have a: "fst (ChatCompletion (demo_env ?r1) demo_client (demo_request None) w0) =
             (None, Some (errorString (''API error: '' @ ''bad request''))) \<and>
           sublist ''bad request'' (''API error: '' @ ''bad request'')"
    using d1 by fastforce
  from api_error_message[OF demo_received n2, where w = w0]
  have b: "fst (ChatCompletion (demo_env ?r2) demo_client (demo_request None) w0) =
             (None, Some (errorString (''unexpected status code: '' @ Status ?r2)))"
    using d2 by blast
  from a b show ?thesis by (simp add: demo_response_def)
qed

text \<open>
  C9. Every status other than 200, the other success statuses such as 201 and 204
  included, is a failure: the call returns no response and one of the two status errors,
  the callback is not called, and the body is read once, by \<open>io.ReadAll\<close>, not by the
  streaming loop.
\<close>

theorem only_200_succeeds:
  assumes rcv: "received E c req res"
    and nok: "StatusCode res \<noteq> 200"
  shows "\<exists>err. fst (ChatCompletion E c req w) = (None, Some err) \<and>
           (err = Errorf_s ''unexpected status code: '' (Status res) \<or>
            (\<exists>m. err = Errorf_s ''API error: '' m)) \<and>
           calls (snd (ChatCompletion E c req w)) = calls w \<and>
           reads (snd (ChatCompletion E c req w)) = reads w + 1"
proof -
  from nok have nok': "StatusCode res \<noteq> http_StatusOK" by (simp add: http_StatusOK_def)
  show ?thesis
    by (auto simp: ChatCompletion_received[OF rcv] handle_response_not_OK[OF nok']
        split: sum.splits)
qed

theorem only_200_succeeds_witness:
  \<open>fst (ChatCompletion
          (demo_env (demo_response 201 ''201 Created'' ''text/event-stream''
             (body_of_lines [''data: {"id":"a"}'', ''data: [DONE]''])))
          demo_client (demo_request (Some ())) w0) =
      (None, Some (errorString ''unexpected status code: 201 Created'')) \<and>
    calls (snd (ChatCompletion
          (demo_env (demo_response 201 ''201 Created'' ''text/event-stream''
             (body_of_lines [''data: {"id":"a"}'', ''data: [DONE]''])))
          demo_client (demo_request (Some ())) w0)) = []\<close>
proof -
  let ?res = \<open>demo_response 201 ''201 Created'' ''text/event-stream''
             (body_of_lines [''data: {"id":"a"}'', ''data: [DONE]''])\<close>
  have n: "StatusCode ?res \<noteq> 200"
    by (simp add: demo_response_def)
  have "ChatCompletion (demo_env ?res) demo_client (demo_request (Some ())) w0 =
      ((None, Some (errorString ''unexpected status code: 201 Created'')),
       (after_Do demo_client (demo_request (Some ())) w0)\<lparr>reads := 1, closes := 1\<rparr>)"
    unfolding ChatCompletion_received[OF demo_received]
    by (simp add: handle_response_def http_StatusOK_def demo_response_def demo_env_def
        body_of_lines_def lines_bytes_def ReadAll_def demo_Unmarshal_apiError_def Errorf_s_def
        w0_def)
  with only_200_succeeds[OF demo_received n, where w = w0]
  show ?thesis by (simp add: w0_def)
qed

text \<open>
  C10. A response whose content type is neither \<open>text/event-stream\<close> nor begins with
  \<open>text/event-stream;\<close>: the callback is never called, also when the request has one,
  and a body that is read and decoded is delivered as the returned response.
\<close>

theorem no_callback_without_stream:
  assumes rcv: "received E c req res"
    and nct: "Header_ContentType res \<noteq> ''text/event-stream'' \<and>
              \<not> prefix ''text/event-stream;'' (Header_ContentType res)"
  shows "calls (snd (ChatCompletion E c req w)) = calls w \<and>
         (\<forall>b r. StatusCode res = 200 \<and> ReadAll (Body res) = (b, None) \<and>
                Unmarshal_response E b = Inr r \<longrightarrow>
                fst (ChatCompletion E c req w) = (Some r, None))"
proof -
  from nct have n: "\<not> is_event_stream (Header_ContentType res)"
    by (simp add: is_event_stream_def)
  show ?thesis
    using n
    by (auto simp: ChatCompletion_received[OF rcv] handle_response_def Let_def http_StatusOK_def
        split: sum.splits option.splits prod.splits)
qed

theorem no_callback_without_stream_witness:
  \<open>calls (snd (ChatCompletion
          (demo_env (demo_response 200 ''200 OK'' ''application/json''
             (body_of_bytes ''{"id":"a"}'')))
          demo_client (demo_request (Some ())) w0)) = [] \<and>
    fst (ChatCompletion
          (demo_env (demo_response 200 ''200 OK'' ''application/json''
             (body_of_bytes ''{"id":"a"}'')))
          demo_client (demo_request (Some ())) w0) = (Some (demo_event ''a''), None)\<close>
proof -
  let ?res = \<open>demo_response 200 ''200 OK'' ''application/json'' (body_of_bytes ''{"id":"a"}'')\<close>
  have nct: "Header_ContentType ?res \<noteq> ''text/event-stream'' \<and>
             \<not> prefix ''text/event-stream;'' (Header_ContentType ?res)"
    by (simp add: demo_response_def)
  have d: \<open>StatusCode ?res = 200 \<and> ReadAll (Body ?res) = (''{"id":"a"}'', None) \<and>
           Unmarshal_response (demo_env ?res) ''{"id":"a"}'' = Inr (demo_event ''a'')\<close>
    by (simp add: demo_response_def body_of_bytes_def ReadAll_def demo_env_def
        demo_Unmarshal_response_def)
  from no_callback_without_stream[OF demo_received nct, where w = w0] d
  show ?thesis by (simp add: w0_def)
qed

section \<open>Validation and serialization\<close>

text \<open>
  C3. A request with an empty model, with no message, with a last message whose role is
  not \<open>user\<close>, or with both penalties different from zero: \<open>ChatCompletion\<close> returns one
  of the four validation errors and leaves the world as it was, so no request has been
  handed to \<open>Do\<close>. The request is passed by value and the function assigns to none of
  its fields.
\<close>

theorem validation_short_circuit:
  assumes "ChatCompletionRequest.Model req = [] \<or>
           len (Messages req) = 0 \<or>
           (len (Messages req) \<noteq> 0 \<and> Role (last (elems (Messages req))) \<noteq> ''user'') \<or>
           (PresencePenalty req \<noteq> Finite 0 \<and> FrequencyPenalty req \<noteq> Finite 0)"
  shows "\<exists>err \<in> validation_errors. ChatCompletion E c req w = ((None, Some err), w)"
proof -
  have l: "elems (Messages req) ! (len (Messages req) - 1) = last (elems (Messages req))"
    if "len (Messages req) \<noteq> 0"
    using that by (simp add: len_def last_conv_nth)
  from assms l have "validate req \<noteq> None \<and> the (validate req) \<in> validation_errors"
    by (auto simp: validate_def validation_errors_def MessageRoleUser_def)
  then show ?thesis
    by (auto simp: ChatCompletion_def)
qed

theorem validation_short_circuit_witness:
  "ChatCompletion (demo_env (demo_stream [])) demo_client
     ((demo_request None)\<lparr>Messages := Some [\<lparr>Role = ''user'', Content = ''Hi''\<rparr>,
                                             \<lparr>Role = ''assistant'', Content = ''Hello''\<rparr>]\<rparr>) w0 =
     ((None, Some (errorString ''the last message must be from the user'')), w0) \<and>
   sent w0 = []"
proof -
  let ?req = "(demo_request None)\<lparr>Messages := Some [\<lparr>Role = ''user'', Content = ''Hi''\<rparr>,
                                             \<lparr>Role = ''assistant'', Content = ''Hello''\<rparr>]\<rparr>"
  have h: "ChatCompletionRequest.Model ?req = [] \<or>
           len (Messages ?req) = 0 \<or>
           (len (Messages ?req) \<noteq> 0 \<and> Role (last (elems (Messages ?req))) \<noteq> ''user'') \<or>
           (PresencePenalty ?req \<noteq> Finite 0 \<and> FrequencyPenalty ?req \<noteq> Finite 0)"
    by (simp add: demo_request_def len_def)
  have v: "validate ?req = Some (errorString ''the last message must be from the user'')"
    by (simp add: validate_def demo_request_def len_def MessageRoleUser_def errors_New_def)
  from validation_short_circuit[OF h, of "demo_env (demo_stream [])" demo_client w0] v
  show ?thesis
    by (auto simp: ChatCompletion_def w0_def)
qed

lemma omit_float_finite:
  "is_finite x \<Longrightarrow> omit_float k x = Inr (if x = Finite 0 then [] else [(k, JNumber (case x of Finite r \<Rightarrow> r))])"
  by (cases x) (simp_all add: omit_float_def is_finite_def)

text \<open>
  C7. Serializing a request whose \<open>float64\<close> fields are finite gives a JSON object. With
  a callback it has exactly one member \<open>stream\<close>, of value true; without a callback it
  has no member \<open>stream\<close>. Every key is one of the wire keys, and the object is the same
  for any two callbacks: the function value is no part of it.
\<close>

theorem stream_flag:
  assumes "is_finite (Temperature req)" "is_finite (TopP req)"
    "is_finite (PresencePenalty req)" "is_finite (FrequencyPenalty req)"
  shows "\<exists>ms. MarshalJSON req = Inr (JObject ms) \<and>
           map snd (filter (\<lambda>m. fst m = ''stream'') ms) =
             (if Stream req = None then [] else [JBool True]) \<and>
           fst ` set ms \<subseteq> wire_keys \<and>
           (\<forall>f g. MarshalJSON (req\<lparr>Stream := Some f\<rparr>) = MarshalJSON (req\<lparr>Stream := Some g\<rparr>))"
  using assms
  by (simp add: MarshalJSON_def omit_float_finite always_def omit_int_def omit_string_def
      omit_bool_def wire_keys_def)

theorem stream_flag_witness:
  "MarshalJSON (demo_request (Some ())) =
     Inr (JObject
       [(''model'', JString ''llama-3.1-sonar-small-128k-online''),
        (''messages'', JArray [JObject [(''role'', JString ''user''),
                                        (''content'', JString ''Hello'')]]),
        (''return_citations'', JBool False),
        (''search_domain_filter'', JNull),
        (''return_images'', JBool False),
        (''return_related_questions'', JBool False),
        (''stream'', JBool True)]) \<and>
   MarshalJSON (demo_request None) =
     Inr (JObject
       [(''model'', JString ''llama-3.1-sonar-small-128k-online''),
        (''messages'', JArray [JObject [(''role'', JString ''user''),
                                        (''content'', JString ''Hello'')]]),
        (''return_citations'', JBool False),
        (''search_domain_filter'', JNull),
        (''return_images'', JBool False),
        (''return_related_questions'', JBool False)])"
proof -
  have f: "is_finite (Temperature (demo_request cb))" "is_finite (TopP (demo_request cb))"
    "is_finite (PresencePenalty (demo_request cb))"
    "is_finite (FrequencyPenalty (demo_request cb))" for cb
    by (simp_all add: demo_request_def is_finite_def)
  from stream_flag[OF f, of "Some ()"] stream_flag[OF f, of None]
  show ?thesis
    by (simp add: MarshalJSON_def demo_request_def omit_float_def always_def omit_int_def
        omit_string_def omit_bool_def marshal_Message_def)
qed

section \<open>Closing the body\<close>

lemma streaming_closes:
  assumes "received E c req res"
    and "StatusCode res = http_StatusOK"
    and "is_event_stream (Header_ContentType res)"
    and "Stream req = Some h"
  shows "closes (snd (ChatCompletion E c req w)) = closes w + 2"
proof -
  obtain err w1 where
    l: "scan_loop E (Scanned (Body res)) (Err (Body res)) (after_Do c req w) = (err, w1)"
    by (cases "scan_loop E (Scanned (Body res)) (Err (Body res)) (after_Do c req w)")
  have "closes w1 = closes (after_Do c req w)"
    using scan_loop_closes[of E "Scanned (Body res)" "Err (Body res)" "after_Do c req w"]
    by (simp add: l)
  then show ?thesis
    by (simp add: ChatCompletion_streaming[OF assms] l)
qed

lemma other_paths_close_once:
  assumes "received E c req res"
    and "StatusCode res \<noteq> http_StatusOK \<or> \<not> is_event_stream (Header_ContentType res) \<or>
         Stream req = None"
  shows "closes (snd (ChatCompletion E c req w)) = closes w + 1"
  using assms(2)
  by (auto simp: ChatCompletion_received[OF assms(1)] handle_response_def Let_def
      split: sum.splits option.splits prod.splits)

text \<open>
  C2. The body of a response is to be closed exactly once on every path. On the paths
  that do not enter \<open>handleStreamingResponse\<close> it is (\<open>other_paths_close_once\<close>). On
  the streaming paths both \<open>ChatCompletion\<close> and \<open>handleStreamingResponse\<close> defer
  \<open>res.Body.Close()\<close> (\<open>streaming_closes\<close>): for the stream of one event followed by the
  sentinel the call returns without an error and the body has been closed twice.
\<close>

theorem body_closed_twice_on_stream:
  \<open>fst (ChatCompletion
      (demo_env (demo_stream [''data: {"id":"a"}'', ''data: [DONE]'']))
      demo_client (demo_request (Some ())) w0) = (None, None) \<and>
   closes (snd (ChatCompletion
      (demo_env (demo_stream [''data: {"id":"a"}'', ''data: [DONE]'']))
      demo_client (demo_request (Some ())) w0)) = 2\<close>
proof -
  let ?res = \<open>demo_stream [''data: {"id":"a"}'', ''data: [DONE]'']\<close>
  have ok: "StatusCode ?res = http_StatusOK"
    by (simp add: demo_stream_def demo_response_def http_StatusOK_def)
  have ct: "is_event_stream (Header_ContentType ?res)"
    by (simp add: demo_stream_def demo_response_def is_event_stream_def)
  have cb: "Stream (demo_request (Some ())) = Some ()"
    by (simp add: demo_request_def)
  have good: \<open>\<forall>l \<in> set [''data: {"id":"a"}'', ''data: [DONE]'']. short_line l\<close>
    by (simp add: short_line_def newline_def MaxScanTokenSize_def)
  have loop: "fst (scan_loop (demo_env ?res) (Scanned (Body ?res)) (Err (Body ?res))
                (after_Do demo_client (demo_request (Some ())) w0)) = None"
    by (simp add: demo_stream_fields Scanned_body_of_lines[OF good] dropCR_eq
        carriage_return_def demo_env_def demo_Unmarshal_response_def after_loop_def Let_def)
  have "fst (ChatCompletion (demo_env ?res) demo_client (demo_request (Some ())) w0) =
          (None, None)"
    unfolding ChatCompletion_streaming[OF demo_received ok ct cb]
    using loop by (simp add: split_beta Let_def)
  with streaming_closes[OF demo_received ok ct cb, where w = w0]
  show ?thesis by (simp add: w0_def)
qed

end
